theory Spec2Isabelle
  imports Main
begin

section \<open>Survey server: strings\<close>

text \<open>
  Python text is held as the list of its UTF-8 bytes (\<^typ>\<open>string\<close> is a list of 8-bit
  characters). Concatenation, comparison, stripping and splitting at the ASCII
  character \<open>/\<close> act on the bytes exactly as they act on the code points.
\<close>

abbreviation dquote :: char where "dquote \<equiv> CHR 0x22"
abbreviation backslash :: char where "backslash \<equiv> CHR 0x5C"
abbreviation newline :: char where "newline \<equiv> CHR 0x0A"
abbreviation slash :: char where "slash \<equiv> CHR ''/''"

datatype error = AttributeError | UnicodeDecodeError | IndexError

text \<open>
  \<open>str.casefold\<close>, on the ASCII letters. The full Unicode folding also changes
  characters outside ASCII, but none of them folds to text that can stand in a leading
  \<open>python\<close>, so the test \<open>casefold().startswith("python")\<close> is decided by the
  ASCII letters alone.
\<close>

definition casefold_char :: "char \<Rightarrow> char" where
  "casefold_char c =
     (let n = (of_char c :: nat) in if 65 \<le> n \<and> n \<le> 90 then char_of (n + 32) else c)"

definition casefold :: "string \<Rightarrow> string" where
  "casefold s = map casefold_char s"

definition startswith :: "string \<Rightarrow> string \<Rightarrow> bool" where
  "startswith s p = (take (length p) s = p)"

text \<open>\<open>str.strip(c)\<close> for a single character \<open>c\<close>.\<close>

definition strip :: "char \<Rightarrow> string \<Rightarrow> string" where
  "strip c s = rev (dropWhile (\<lambda>x. x = c) (rev (dropWhile (\<lambda>x. x = c) s)))"

text \<open>\<open>str.split(sep, maxsplit)\<close> for a single character \<open>sep\<close>.\<close>

fun split :: "char \<Rightarrow> nat \<Rightarrow> string \<Rightarrow> string list" where
  "split sep 0 s = [s]"
| "split sep (Suc n) s =
     (if sep \<in> set s
      then takeWhile (\<lambda>x. x \<noteq> sep) s # split sep n (tl (dropWhile (\<lambda>x. x \<noteq> sep) s))
      else [s])"

text \<open>
  \<open>bytes.decode()\<close>: strict UTF-8. The text is kept as the same bytes, so decoding
  is the check that the bytes are well-formed UTF-8 (no overlong form, no surrogate,
  nothing above U+10FFFF); otherwise Python raises \<open>UnicodeDecodeError\<close>.
\<close>

definition cont :: "nat \<Rightarrow> bool" where
  "cont b = (128 \<le> b \<and> b \<le> 191)"

fun utf8_valid :: "nat list \<Rightarrow> bool" where
  "utf8_valid [] = True"
| "utf8_valid (b # bs) =
     (if b < 128 then utf8_valid bs
      else if 194 \<le> b \<and> b \<le> 223 then
        (case bs of c1 # r \<Rightarrow> cont c1 \<and> utf8_valid r | _ \<Rightarrow> False)
      else if 224 \<le> b \<and> b \<le> 239 then
        (case bs of c1 # c2 # r \<Rightarrow>
           cont c1 \<and> (b = 224 \<and> 160 \<le> c1 \<or> b = 237 \<and> c1 \<le> 159 \<or> b \<noteq> 224 \<and> b \<noteq> 237)
           \<and> cont c2 \<and> utf8_valid r
         | _ \<Rightarrow> False)
      else if 240 \<le> b \<and> b \<le> 244 then
        (case bs of c1 # c2 # c3 # r \<Rightarrow>
           cont c1 \<and> (b = 240 \<and> 144 \<le> c1 \<or> b = 244 \<and> c1 \<le> 143 \<or> b \<noteq> 240 \<and> b \<noteq> 244)
           \<and> cont c2 \<and> cont c3 \<and> utf8_valid r
         | _ \<Rightarrow> False)
      else False)"

definition decode :: "string \<Rightarrow> error + string" where
  "decode bs = (if utf8_valid (map of_char bs) then Inr bs else Inl UnicodeDecodeError)"

section \<open>JSON text as the storage engine and orjson write it\<close>

text \<open>
  A string inside JSON text. SQLite's \<open>json_group_array\<close> and \<open>orjson.dumps\<close> quote a
  string the same way: \<open>"\<close> and \<open>\\<close> get a backslash, the control characters
  below 0x20 become \<open>\b \t \n \f \r\<close> or \<open>\u00XX\<close> with lower-case hex digits, and every
  other byte is copied.
\<close>

definition hexdigit :: "nat \<Rightarrow> char" where
  "hexdigit n = (let d = n mod 16 in if d < 10 then char_of (48 + d) else char_of (87 + d))"

definition escape_char :: "char \<Rightarrow> string" where
  "escape_char c =
     (if c = dquote then [backslash, dquote]
      else if c = backslash then [backslash, backslash]
      else if c = CHR 0x08 then [backslash, CHR ''b'']
      else if c = CHR 0x09 then [backslash, CHR ''t'']
      else if c = newline then [backslash, CHR ''n'']
      else if c = CHR 0x0C then [backslash, CHR ''f'']
      else if c = CHR 0x0D then [backslash, CHR ''r'']
      else if (of_char c :: nat) < 32 then
        [backslash, CHR ''u'', CHR ''0'', CHR ''0'',
         hexdigit ((of_char c :: nat) div 16), hexdigit (of_char c)]
      else [c])"

definition json_quote :: "string \<Rightarrow> string" where
  "json_quote s = dquote # concat (map escape_char s) @ [dquote]"

text \<open>
  \<open>json_group_array(data)\<close> over the rows of a table, in row order: the values quoted
  and separated by commas, between brackets. The aggregate of no rows is \<open>[]\<close>.
\<close>

fun join :: "string \<Rightarrow> string list \<Rightarrow> string" where
  "join sep [] = []"
| "join sep [x] = x"
| "join sep (x # y # ys) = x @ sep @ join sep (y # ys)"

definition json_group_array :: "string list \<Rightarrow> string" where
  "json_group_array ds = ''['' @ join '','' (map json_quote ds) @ '']''"

text \<open>Decimal digits of a natural number and of an integer, as \<open>orjson.dumps\<close> writes them.\<close>

definition digit_char :: "nat \<Rightarrow> char" where
  "digit_char d = char_of (of_char (CHR ''0'') + d)"

fun digits :: "nat \<Rightarrow> string" where
  "digits n = (if 10 \<le> n then digits (n div 10) @ [digit_char (n mod 10)] else [digit_char n])"

declare digits.simps [simp del]

definition show_int :: "int \<Rightarrow> string" where
  "show_int i = (if i < 0 then CHR ''-'' # digits (nat (- i)) else digits (nat i))"

text \<open>
  The Python objects handed to \<open>orjson.dumps\<close>, and the objects \<open>json.loads\<close> returns.
\<close>

datatype json =
    JNull
  | JBool bool
  | JInt int
  | JStr string
  | JArr "json list"
  | JObj "(string \<times> json) list"

text \<open>
  \<open>orjson.dumps(v, option=OPT_INDENT_2 | OPT_APPEND_NEWLINE)\<close>: one member or element
  per line, indented by two spaces per level, \<open>": "\<close> after a key, and a newline after
  the document.
\<close>

definition indent :: "nat \<Rightarrow> string" where
  "indent d = replicate (2 * d) CHR '' ''"

fun dumps_indent :: "nat \<Rightarrow> json \<Rightarrow> string"
  and dumps_elements :: "nat \<Rightarrow> json list \<Rightarrow> string"
  and dumps_members :: "nat \<Rightarrow> (string \<times> json) list \<Rightarrow> string"
where
  "dumps_indent d JNull = ''null''"
| "dumps_indent d (JBool b) = (if b then ''true'' else ''false'')"
| "dumps_indent d (JInt i) = show_int i"
| "dumps_indent d (JStr s) = json_quote s"
| "dumps_indent d (JArr []) = ''[]''"
| "dumps_indent d (JArr (v # vs)) =
     ''['' @ [newline] @ dumps_elements (Suc d) (v # vs) @ [newline] @ indent d @ '']''"
| "dumps_indent d (JObj []) = ''{}''"
| "dumps_indent d (JObj (kv # kvs)) =
     ''{'' @ [newline] @ dumps_members (Suc d) (kv # kvs) @ [newline] @ indent d @ ''}''"
| "dumps_elements d [] = []"
| "dumps_elements d [v] = indent d @ dumps_indent d v"
| "dumps_elements d (v # v' # vs) =
     indent d @ dumps_indent d v @ '','' @ [newline] @ dumps_elements d (v' # vs)"
| "dumps_members d [] = []"
| "dumps_members d [(k, v)] = indent d @ json_quote k @ '': '' @ dumps_indent d v"
| "dumps_members d ((k, v) # kv' # kvs) =
     indent d @ json_quote k @ '': '' @ dumps_indent d v @ '','' @ [newline]
     @ dumps_members d (kv' # kvs)"

definition orjson_dumps :: "json \<Rightarrow> string" where
  "orjson_dumps v = dumps_indent 0 v @ [newline]"

section \<open>Reading JSON text\<close>

text \<open>
  \<open>json.loads\<close>, with which \<open>survey_client.py\<close> reads every response body. Whitespace
  is space, tab, newline and carriage return. A string ends at the first quote that
  is not part of an escape; a raw control character inside it is refused. Three things
  that \<open>json.loads\<close> accepts are refused here, since their values have no place in
  \<^typ>\<open>json\<close>: numbers with a fraction or an exponent, the names \<open>NaN\<close> and \<open>Infinity\<close>,
  and \<open>\u\<close> escapes of surrogates.
\<close>

definition is_ws :: "char \<Rightarrow> bool" where
  "is_ws c = (c = CHR '' '' \<or> c = CHR 0x09 \<or> c = newline \<or> c = CHR 0x0D)"

definition skip_ws :: "string \<Rightarrow> string" where
  "skip_ws cs = dropWhile is_ws cs"

definition hexval :: "char \<Rightarrow> nat option" where
  "hexval c =
     (let n = (of_char c :: nat)
      in if 48 \<le> n \<and> n \<le> 57 then Some (n - 48)
         else if 97 \<le> n \<and> n \<le> 102 then Some (n - 87)
         else if 65 \<le> n \<and> n \<le> 70 then Some (n - 55)
         else None)"

definition hex4 :: "char \<Rightarrow> char \<Rightarrow> char \<Rightarrow> char \<Rightarrow> nat option" where
  "hex4 a b c d =
     (case (hexval a, hexval b, hexval c, hexval d) of
        (Some x, Some y, Some z, Some u) \<Rightarrow> Some (((x * 16 + y) * 16 + z) * 16 + u)
      | _ \<Rightarrow> None)"

definition utf8_encode :: "nat \<Rightarrow> string" where
  "utf8_encode n =
     (if n < 128 then [char_of n]
      else if n < 2048 then [char_of (192 + n div 64), char_of (128 + n mod 64)]
      else [char_of (224 + n div 4096), char_of (128 + n div 64 mod 64), char_of (128 + n mod 64)])"

definition unescape :: "char \<Rightarrow> char option" where
  "unescape e =
     (if e = dquote \<or> e = backslash \<or> e = slash then Some e
      else if e = CHR ''b'' then Some (CHR 0x08)
      else if e = CHR ''f'' then Some (CHR 0x0C)
      else if e = CHR ''n'' then Some newline
      else if e = CHR ''r'' then Some (CHR 0x0D)
      else if e = CHR ''t'' then Some (CHR 0x09)
      else None)"

text \<open>The characters of a string, from behind its opening quote to its closing quote.\<close>

fun scan_string :: "string \<Rightarrow> (string \<times> string) option" where
  "scan_string [] = None"
| "scan_string (c # cs) =
     (if c = dquote then Some ([], cs)
      else if c = backslash then
        (case cs of
           [] \<Rightarrow> None
         | e # r \<Rightarrow>
             if e = CHR ''u'' then
               (case r of
                  h1 # h2 # h3 # h4 # r' \<Rightarrow>
                    (case hex4 h1 h2 h3 h4 of
                       None \<Rightarrow> None
                     | Some n \<Rightarrow>
                         if 55296 \<le> n \<and> n \<le> 57343 then None
                         else map_option (\<lambda>(s, t). (utf8_encode n @ s, t)) (scan_string r'))
                | _ \<Rightarrow> None)
             else
               (case unescape e of
                  None \<Rightarrow> None
                | Some ch \<Rightarrow> map_option (\<lambda>(s, t). (ch # s, t)) (scan_string r)))
      else if (of_char c :: nat) < 32 then None
      else map_option (\<lambda>(s, t). (c # s, t)) (scan_string cs))"

definition is_digit :: "char \<Rightarrow> bool" where
  "is_digit c = (48 \<le> (of_char c :: nat) \<and> (of_char c :: nat) \<le> 57)"

definition scan_number :: "string \<Rightarrow> (json \<times> string) option" where
  "scan_number cs =
     (let neg = (take 1 cs = ''-'');
          r = (if neg then drop 1 cs else cs);
          ds = takeWhile is_digit r;
          rest = dropWhile is_digit r
      in if ds = [] \<or> (1 < length ds \<and> take 1 ds = ''0'')
            \<or> take 1 rest = ''.'' \<or> take 1 rest = ''e'' \<or> take 1 rest = ''E''
         then None
         else let n = foldl (\<lambda>a d. 10 * a + (of_char d - 48)) (0 :: nat) ds
              in Some (JInt (if neg then - int n else int n), rest))"

text \<open>
  A value, the elements of an array behind its bracket, the members of an object behind
  its brace. The first argument bounds the depth of the calls.
\<close>

fun parse_value :: "nat \<Rightarrow> string \<Rightarrow> (json \<times> string) option"
  and parse_elements :: "nat \<Rightarrow> string \<Rightarrow> (json list \<times> string) option"
  and parse_members :: "nat \<Rightarrow> string \<Rightarrow> ((string \<times> json) list \<times> string) option"
where
  "parse_value 0 cs = None"
| "parse_value (Suc n) cs =
     (case skip_ws cs of
        [] \<Rightarrow> None
      | c # r \<Rightarrow>
          if c = dquote then map_option (\<lambda>(s, t). (JStr s, t)) (scan_string r)
          else if c = CHR ''['' then
            (case skip_ws r of
               [] \<Rightarrow> None
             | c' # r' \<Rightarrow>
                 if c' = CHR '']'' then Some (JArr [], r')
                 else map_option (\<lambda>(vs, t). (JArr vs, t)) (parse_elements n r))
          else if c = CHR ''{'' then
            (case skip_ws r of
               [] \<Rightarrow> None
             | c' # r' \<Rightarrow>
                 if c' = CHR ''}'' then Some (JObj [], r')
                 else map_option (\<lambda>(kvs, t). (JObj kvs, t)) (parse_members n r))
          else if take 4 (c # r) = ''null'' then Some (JNull, drop 3 r)
          else if take 4 (c # r) = ''true'' then Some (JBool True, drop 3 r)
          else if take 5 (c # r) = ''false'' then Some (JBool False, drop 4 r)
          else scan_number (c # r))"
| "parse_elements 0 cs = None"
| "parse_elements (Suc n) cs =
     (case parse_value n cs of
        None \<Rightarrow> None
      | Some (v, r) \<Rightarrow>
          (case skip_ws r of
             [] \<Rightarrow> None
           | c # r' \<Rightarrow>
               if c = CHR '','' then map_option (\<lambda>(vs, t). (v # vs, t)) (parse_elements n r')
               else if c = CHR '']'' then Some ([v], r')
               else None))"
| "parse_members 0 cs = None"
| "parse_members (Suc n) cs =
     (case skip_ws cs of
        [] \<Rightarrow> None
      | q # r \<Rightarrow>
          if q \<noteq> dquote then None
          else
            (case scan_string r of
               None \<Rightarrow> None
             | Some (k, r1) \<Rightarrow>
                 (case skip_ws r1 of
                    [] \<Rightarrow> None
                  | c # r2 \<Rightarrow>
                      if c \<noteq> CHR '':'' then None
                      else
                        (case parse_value n r2 of
                           None \<Rightarrow> None
                         | Some (v, r3) \<Rightarrow>
                             (case skip_ws r3 of
                                [] \<Rightarrow> None
                              | c' # r4 \<Rightarrow>
                                  if c' = CHR '','' then
                                    map_option (\<lambda>(kvs, t). ((k, v) # kvs, t)) (parse_members n r4)
                                  else if c' = CHR ''}'' then Some ([(k, v)], r4)
                                  else None)))))"

text \<open>
  The whole text is one value, with whitespace around it at most. The depth allowed
  grows with the text.
\<close>

definition json_loads :: "string \<Rightarrow> json option" where
  "json_loads s =
     (case parse_value (2 * length s + 2) s of
        None \<Rightarrow> None
      | Some (v, r) \<Rightarrow> if skip_ws r = [] then Some v else None)"

section \<open>Storage\<close>

text \<open>
  The two tables of \<open>survey.db\<close>. The \<open>created\<close> column of both (the time of the
  insert, set by the storage engine) is left out: the handler never reads or writes it.
  The FLOAT column \<open>expiry\<close> is never inspected, so its values are of an abstract type.
\<close>

typedecl pyfloat

record survey_info =
  question :: string
  expiry :: "pyfloat option"

record survey_row =
  survey_title :: string
  info :: survey_info

record response_row =
  title :: string
  data :: string
  agent :: string

type_synonym catalog = "string \<rightharpoonup> survey_info"

text \<open>The three statements the server sends while handling requests.\<close>

datatype sql =
    SELECT_surveys
  | INSERT_response response_row
  | SELECT_responses

text \<open>
  What \<open>fetchone\<close> gives for them: a 1-tuple holding JSON text. The object built by
  \<open>json_group_object(title, json_object('question',question,'expiry',expiry))\<close> is
  held as the members it lists, one per row in row order; the array built by
  \<open>json_group_array(data)\<close> is held as its text. A query gives its own kind of row
  only (\<open>fetch\<close> below), so where a caller looks at a row, the other kind falls under
  the case that is left.
\<close>

datatype row =
    Surveys_json "(string \<times> survey_info) list"
  | Responses_json string

text \<open>
  The process and its database: the tables, the slot of \<open>alru_cache\<close> around
  \<open>get_surveys\<close> (empty until the first call), and the statements executed so far.
\<close>

record world =
  survey_table :: "survey_row list"
  response_table :: "response_row list"
  surveys_cache :: "catalog option"
  executed :: "sql list"

text \<open>
  \<open>dbexecute(sql, params, fetchone)\<close>: connect, set the four pragmas (they change no
  table), execute, fetch one row when asked. An aggregate query without GROUP BY has
  exactly one result row, also over an empty table; an INSERT has none. The store is
  taken to be available: a failing connection or statement is not modelled.
\<close>

fun run :: "sql \<Rightarrow> world \<Rightarrow> world" where
  "run (INSERT_response r) w = w\<lparr>response_table := response_table w @ [r]\<rparr>"
| "run SELECT_surveys w = w"
| "run SELECT_responses w = w"

fun fetch :: "sql \<Rightarrow> world \<Rightarrow> row option" where
  "fetch SELECT_surveys w =
     Some (Surveys_json (map (\<lambda>r. (survey_title r, info r)) (survey_table w)))"
| "fetch SELECT_responses w =
     Some (Responses_json (json_group_array (map data (response_table w))))"
| "fetch (INSERT_response r) w = None"

definition dbexecute :: "sql \<Rightarrow> bool \<Rightarrow> world \<Rightarrow> row option \<times> world" where
  "dbexecute q fetchone w =
     (let w' = (run q w)\<lparr>executed := executed w @ [q]\<rparr>;
          data = (if fetchone then fetch q w' else None)
      in (data, w'))"

section \<open>The catalog cache\<close>

text \<open>
  \<open>orjson.loads\<close> of the catalog object: a dict, where a later member with the same key
  replaces an earlier one.
\<close>

definition orjson_loads :: "(string \<times> survey_info) list \<Rightarrow> catalog" where
  "orjson_loads kvs = map_of (rev kvs)"

text \<open>
  \<open>get_surveys\<close> under \<open>@alru_cache\<close>: a call finding the slot filled returns its
  content and does nothing else; otherwise the body runs and its result fills the slot.
  A result that is not a tuple leaves \<open>surveys\<close> the empty dict.
\<close>

definition get_surveys_body :: "world \<Rightarrow> catalog \<times> world" where
  "get_surveys_body w =
     (let (result, w') = dbexecute SELECT_surveys True w;
          surveys = (case result of Some (Surveys_json kvs) \<Rightarrow> orjson_loads kvs | _ \<Rightarrow> Map.empty)
      in (surveys, w'))"

definition get_surveys :: "world \<Rightarrow> catalog \<times> world" where
  "get_surveys w =
     (case surveys_cache w of
        Some surveys \<Rightarrow> (surveys, w)
      | None \<Rightarrow>
          (let (surveys, w') = get_surveys_body w
           in (surveys, w'\<lparr>surveys_cache := Some surveys\<rparr>)))"

section \<open>The request router\<close>

text \<open>\<open>path.strip("/").split("/", 2)[0]\<close>; indexing an empty list would raise.\<close>

definition get_action :: "string \<Rightarrow> error + string" where
  "get_action path =
     (case split slash 2 (strip slash path) of
        [] \<Rightarrow> Inl IndexError
      | action # _ \<Rightarrow> Inr action)"

section \<open>The request handler\<close>

text \<open>
  \<open>scope\<close>: what the handler reads of the request. \<open>headers.get\<close> is a lookup that gives
  \<open>None\<close> for an absent name. The second argument of \<open>app\<close> is the bytes \<open>await proto()\<close>
  returns, the request body.
\<close>

record scope =
  path :: string
  http_method :: string
  headers :: "string \<rightharpoonup> string"

text \<open>What \<open>proto.response_str(code, headers, body)\<close> sends.\<close>

record http_response =
  status :: int
  response_headers :: "(string \<times> string) list"
  body :: string

text \<open>
  The end of \<open>app\<close>, from \<open>if code != 200\<close> on: the error envelope replaces the body
  when the code is not 200, and the response is sent.
\<close>

definition envelope :: "int \<Rightarrow> string \<Rightarrow> json" where
  "envelope code message =
     JObj [(''error'', JObj [(''code'', JInt code), (''message'', JStr message)])]"

definition respond :: "int \<Rightarrow> string \<Rightarrow> string \<Rightarrow> http_response" where
  "respond code message body_json =
     (let body_json = (if code \<noteq> 200 then orjson_dumps (envelope code message) else body_json)
      in \<lparr>status = code,
          response_headers = [(''content-type'', ''application/json'')],
          body = body_json\<rparr>)"

text \<open>
  \<open>app(scope, proto)\<close>. The result is the exception raised or the response sent,
  with the world as the call leaves it. \<open>None.casefold()\<close> raises \<open>AttributeError\<close>;
  \<open>answer.decode()\<close> raises on bytes that are not UTF-8. In the GET branch
  \<open>dbexecute(...) or ("[]")\<close> is the row when there is one (a 1-tuple is truthy) and
  the string \<open>[]\<close> otherwise, and only a tuple replaces \<open>body_json\<close>. The request
  path reaches the handler as text, so \<open>orjson.dumps\<close> never meets a lone surrogate.
\<close>

definition app :: "scope \<Rightarrow> string \<Rightarrow> world \<Rightarrow> (error + http_response) \<times> world" where
  "app scope proto w =
     (let message = [];
          body_json = [dquote, dquote];
          agent = headers scope ''user-agent'';
          (surveys, w) = get_surveys w
      in case get_action (path scope) of
           Inl e \<Rightarrow> (Inl e, w)
         | Inr action \<Rightarrow>
             (case agent of
                None \<Rightarrow> (Inl AttributeError, w)
              | Some agent' \<Rightarrow>
                  if \<not> startswith (casefold agent') ''python'' then
                    (Inr (respond 451 ''Try using a Python HTTP client'' body_json), w)
                  else if action \<notin> dom surveys then
                    (Inr (respond 404 (''Could not find any survey called '' @ action) body_json), w)
                  else if http_method scope = ''POST'' then
                    (case decode proto of
                       Inl e \<Rightarrow> (Inl e, w)
                     | Inr answer \<Rightarrow>
                         (let (_, w) =
                            dbexecute
                              (INSERT_response \<lparr>title = action, data = answer, agent = agent'\<rparr>)
                              False w;
                              body_json =
                                [dquote] @ ''Successfully submitted answer '' @ [backslash, dquote]
                                @ answer @ [backslash, dquote] @ ''.'' @ [dquote]
                          in (Inr (respond 200 message body_json), w)))
                  else if http_method scope = ''GET'' then
                    (let (answer_list, w) = dbexecute SELECT_responses True w;
                         body_json =
                           (case answer_list of
                              Some (Responses_json text) \<Rightarrow> text
                            | _ \<Rightarrow> body_json)
                     in (Inr (respond 200 message body_json), w))
                  else (Inr (respond 200 message body_json), w)))"

section \<open>A seeded database and sample requests\<close>

text \<open>
  The three surveys \<open>dbinit\<close> inserts, in a fresh process with no responses yet. The
  expiry is left NULL, which the column allows.
\<close>

definition seeded :: world where
  "seeded =
     \<lparr>survey_table =
        [\<lparr>survey_title = ''favorite'',
          info = \<lparr>question = ''What is your favorite type of snake OR favorite Monty Python quote?'',
                  expiry = None\<rparr>\<rparr>,
         \<lparr>survey_title = ''automation'',
          info = \<lparr>question = ''Name an automation tool or language you use for configuring or managing systems.'',
                  expiry = None\<rparr>\<rparr>,
         \<lparr>survey_title = ''task'',
          info = \<lparr>question = ''What is a task you wish you could script or automate?'',
                  expiry = None\<rparr>\<rparr>],
      response_table = [],
      surveys_cache = None,
      executed = []\<rparr>"

text \<open>A request as \<open>urllib\<close> sends it, and the same request from another client.\<close>

definition python_request :: "string \<Rightarrow> string \<Rightarrow> scope" where
  "python_request m p =
     \<lparr>path = p, http_method = m, headers = [''user-agent'' \<mapsto> ''Python-urllib/3.11'']\<rparr>"

definition curl_request :: "string \<Rightarrow> string \<Rightarrow> scope" where
  "curl_request m p =
     \<lparr>path = p, http_method = m, headers = [''user-agent'' \<mapsto> ''curl/8.5.0'']\<rparr>"

definition bare_request :: "string \<Rightarrow> string \<Rightarrow> scope" where
  "bare_request m p = \<lparr>path = p, http_method = m, headers = Map.empty\<rparr>"

text \<open>The seeded database with two answers in it, to two different surveys.\<close>

definition answered :: world where
  "answered =
     seeded\<lparr>response_table :=
       [\<lparr>title = ''task'', data = ''backups'', agent = ''Python-urllib/3.11''\<rparr>,
        \<lparr>title = ''favorite'', data = ''Garter snake'', agent = ''python-requests/2.31''\<rparr>]\<rparr>"

text \<open>The world after a request, and after the same request sent \<open>n\<close> times in a row.\<close>

definition after :: "scope \<Rightarrow> string \<Rightarrow> world \<Rightarrow> world" where
  "after scope proto w = snd (app scope proto w)"

definition repeated :: "nat \<Rightarrow> scope \<Rightarrow> string \<Rightarrow> world \<Rightarrow> world" where
  "repeated n scope proto w = (after scope proto ^^ n) w"

section \<open>The catalog cache holds its first answer\<close>

lemma get_surveys_fills_cache:
  "surveys_cache (snd (get_surveys w)) = Some (fst (get_surveys w))"
  by (simp add: get_surveys_def split: option.split prod.split)

lemma get_surveys_tables:
  "survey_table (snd (get_surveys w)) = survey_table w"
  "response_table (snd (get_surveys w)) = response_table w"
  by (simp_all add: get_surveys_def get_surveys_body_def dbexecute_def Let_def split: option.split)

lemma get_surveys_executed:
  "executed (snd (get_surveys w)) =
     (if surveys_cache w = None then executed w @ [SELECT_surveys] else executed w)"
  by (simp add: get_surveys_def get_surveys_body_def dbexecute_def Let_def split: option.split)

lemma get_surveys_cached:
  "surveys_cache w' = Some c \<Longrightarrow> get_surveys w' = (c, w')"
  by (simp add: get_surveys_def)

text \<open>
  C7. After any call of \<open>get_surveys\<close>, a call in a world whose cache slot is as that
  call left it returns the same mapping and leaves the world as it found it: no
  statement is executed, whatever the survey table holds by then.
\<close>

theorem get_surveys_memoized:
  assumes "surveys_cache w' = surveys_cache (snd (get_surveys w))"
  shows "get_surveys w' = (fst (get_surveys w), w')"
  using assms by (simp add: get_surveys_fills_cache get_surveys_def [of w'])

text \<open>
  The seeded database: after the first call the survey table is emptied, and the second
  call still returns the three surveys; the one statement ever executed is the first
  call's.
\<close>

theorem get_surveys_memoized_witness:
  "surveys_cache ((snd (get_surveys seeded))\<lparr>survey_table := []\<rparr>)
     = surveys_cache (snd (get_surveys seeded))
   \<and> get_surveys ((snd (get_surveys seeded))\<lparr>survey_table := []\<rparr>)
       = (fst (get_surveys seeded), (snd (get_surveys seeded))\<lparr>survey_table := []\<rparr>)
   \<and> executed (snd (get_surveys seeded)) = [SELECT_surveys]
   \<and> fst (get_surveys seeded) ''task'' \<noteq> None"
  using get_surveys_memoized [of "(snd (get_surveys seeded))\<lparr>survey_table := []\<rparr>" seeded]
  by (simp add: seeded_def get_surveys_def get_surveys_body_def dbexecute_def orjson_loads_def)

section \<open>What the writers write, the reader reads back\<close>

text \<open>
  The escape of one character reads back as that character, so a quoted string reads
  back as the string, whatever bytes it holds.
\<close>

lemma hexval_digit:
  "d < 16 \<Longrightarrow> hexval (if d < 10 then char_of (48 + d) else char_of (87 + d)) = Some d"
  by (auto simp add: hexval_def Let_def)

lemma hexval_hexdigit: "hexval (hexdigit m) = Some (m mod 16)"
  by (simp add: hexdigit_def Let_def hexval_digit del: of_char_of)

lemma hexval_zero: "hexval CHR ''0'' = Some 0"
  by (simp add: hexval_def)

lemma scan_control:
  assumes "(of_char c :: nat) < 32" "c \<noteq> CHR 0x08" "c \<noteq> CHR 0x09" "c \<noteq> newline" "c \<noteq> CHR 0x0C" "c \<noteq> CHR 0x0D"
  shows "scan_string (escape_char c @ cs) = map_option (\<lambda>(s, t). (c # s, t)) (scan_string cs)"
proof -
  let ?n = "of_char c :: nat"
  have ne: "c \<noteq> dquote" "c \<noteq> backslash" using assms(1) by auto
  have e: "escape_char c = [backslash, CHR ''u'', CHR ''0'', CHR ''0'', hexdigit (?n div 16), hexdigit ?n]"
    using assms ne by (simp add: escape_char_def)
  have "?n div 16 < 16" using assms(1) by simp
  then have h: "hex4 CHR ''0'' CHR ''0'' (hexdigit (?n div 16)) (hexdigit ?n) = Some ?n"
    by (simp add: hex4_def hexval_hexdigit hexval_zero)
  have u: "utf8_encode ?n = [c]" using assms(1) by (simp add: utf8_encode_def)
  show ?thesis using assms(1) by (simp add: e h u)
qed

lemma scan_escape:
  "scan_string (escape_char c @ cs) = map_option (\<lambda>(s, t). (c # s, t)) (scan_string cs)"
proof (cases "(of_char c :: nat) < 32 \<and> c \<noteq> CHR 0x08 \<and> c \<noteq> CHR 0x09 \<and> c \<noteq> newline \<and> c \<noteq> CHR 0x0C \<and> c \<noteq> CHR 0x0D")
  case True
  then show ?thesis by (simp add: scan_control)
next
  case False
  then show ?thesis
    by (auto simp add: escape_char_def unescape_def)
qed

lemma scan_quoted:
  "scan_string (concat (map escape_char s) @ dquote # rest) = Some (s, rest)"
  by (induction s) (simp_all add: scan_escape)

lemma parse_value_quote:
  "parse_value (Suc n) (json_quote s @ rest) = Some (JStr s, rest)"
  by (simp add: json_quote_def skip_ws_def is_ws_def scan_quoted)

text \<open>
  The array \<open>json_group_array\<close> writes reads back as the list of its strings.
\<close>

lemma parse_elements_strings:
  "ds \<noteq> [] \<Longrightarrow> length ds < n \<Longrightarrow>
   parse_elements n (join '','' (map json_quote ds) @ CHR '']'' # rest) = Some (map JStr ds, rest)"
proof (induction ds arbitrary: n)
  case Nil
  then show ?case by simp
next
  case (Cons d ds)
  from Cons.prems obtain k where n: "n = Suc (Suc k)" and k: "length ds \<le> k"
    by (cases n; cases "n - 1") auto
  show ?case
  proof (cases ds)
    case Nil
    then show ?thesis
      by (simp add: n parse_value_quote skip_ws_def is_ws_def del: parse_value.simps)
  next
    case (Cons d' ds')
    have "parse_elements (Suc k) (join '','' (map json_quote ds) @ CHR '']'' # rest) = Some (map JStr ds, rest)"
      using Cons.IH [of "Suc k"] k Cons by simp
    then show ?thesis
      using Cons by (simp add: n parse_value_quote skip_ws_def is_ws_def del: parse_value.simps)
  qed
qed

lemma length_join_quote: "length ds \<le> length (join '','' (map json_quote ds))"
  by (induction ds rule: induct_list012) (simp_all add: json_quote_def)

lemma parse_value_array:
  assumes "length ds < n"
  shows "parse_value (Suc n) (json_group_array ds @ rest) = Some (JArr (map JStr ds), rest)"
proof (cases ds)
  case Nil
  then show ?thesis by (simp add: json_group_array_def skip_ws_def is_ws_def)
next
  case (Cons d ds')
  have "skip_ws (join '','' (map json_quote ds) @ CHR '']'' # rest)
          = dquote # tl (join '','' (map json_quote ds) @ CHR '']'' # rest)"
    using Cons by (cases ds') (simp_all add: json_quote_def skip_ws_def is_ws_def)
  then show ?thesis
    using assms Cons parse_elements_strings [of ds n rest]
    by (simp add: json_group_array_def skip_ws_def is_ws_def)
qed

lemma json_loads_array: "json_loads (json_group_array ds) = Some (JArr (map JStr ds))"
proof -
  have "length ds < 2 * length (json_group_array ds) + 1"
    using length_join_quote [of ds] by (simp add: json_group_array_def)
  then have "parse_value (Suc (2 * length (json_group_array ds) + 1)) (json_group_array ds @ [])
      = Some (JArr (map JStr ds), [])"
    by (rule parse_value_array)
  then show ?thesis by (simp add: json_loads_def skip_ws_def)
qed

text \<open>
  The error envelope as \<open>orjson.dumps\<close> writes it, and as it reads back, for the two codes
  the handler uses.
\<close>

lemma show_int_codes: "show_int 404 = ''404''" "show_int 451 = ''451''"
  by code_simp+

lemma scan_number_codes:
  "scan_number (CHR ''4'' # CHR ''0'' # CHR ''4'' # CHR '','' # r) = Some (JInt 404, CHR '','' # r)"
  "scan_number (CHR ''4'' # CHR ''5'' # CHR ''1'' # CHR '','' # r) = Some (JInt 451, CHR '','' # r)"
  by (simp_all add: scan_number_def is_digit_def)

lemma orjson_dumps_envelope:
  "orjson_dumps (envelope code message) =
     ''{'' @ [newline] @ ''  '' @ json_quote ''error'' @ '': {'' @ [newline]
     @ ''    '' @ json_quote ''code'' @ '': '' @ show_int code @ '','' @ [newline]
     @ ''    '' @ json_quote ''message'' @ '': '' @ json_quote message @ [newline]
     @ ''  }'' @ [newline] @ ''}'' @ [newline]"
  by (simp add: orjson_dumps_def envelope_def indent_def numeral_2_eq_2)

lemma parse_envelope:
  assumes "code = 404 \<or> code = 451"
  shows "parse_value (Suc (Suc (Suc (Suc (Suc (Suc k)))))) (orjson_dumps (envelope code message))
         = Some (envelope code message, [newline])"
  unfolding orjson_dumps_envelope using assms
  by (auto simp add: show_int_codes scan_number_codes envelope_def
      json_quote_def scan_escape scan_quoted skip_ws_def is_ws_def)

lemma json_loads_envelope:
  assumes "code = 404 \<or> code = 451"
  shows "json_loads (orjson_dumps (envelope code message)) = Some (envelope code message)"
proof -
  have "6 \<le> 2 * length (orjson_dumps (envelope code message)) + 2"
    by (simp add: orjson_dumps_envelope)
  then have "\<exists>k. 2 * length (orjson_dumps (envelope code message)) + 2 = Suc (Suc (Suc (Suc (Suc (Suc k)))))"
    by (intro exI [of _ "2 * length (orjson_dumps (envelope code message)) + 2 - 6"]) simp
  then obtain k where "2 * length (orjson_dumps (envelope code message)) + 2 = Suc (Suc (Suc (Suc (Suc (Suc k)))))" ..
  then show ?thesis
    using parse_envelope [OF assms, of k message]
    by (simp add: json_loads_def skip_ws_def is_ws_def)
qed

section \<open>The router never fails\<close>

lemma takeWhile_absent: "sep \<notin> set s \<Longrightarrow> takeWhile (\<lambda>x. x \<noteq> sep) s = s"
  by (induction s) auto

lemma get_action_total:
  "get_action p = Inr (takeWhile (\<lambda>x. x \<noteq> slash) (strip slash p))"
  by (simp add: get_action_def numeral_2_eq_2 takeWhile_absent)

section \<open>The branches of the handler\<close>

lemma respond_error:
  "code \<noteq> 200 \<Longrightarrow> respond code message b =
     \<lparr>status = code, response_headers = [(''content-type'', ''application/json'')],
      body = orjson_dumps (envelope code message)\<rparr>"
  by (simp add: respond_def)

lemma respond_ok:
  "respond 200 message b =
     \<lparr>status = 200, response_headers = [(''content-type'', ''application/json'')], body = b\<rparr>"
  by (simp add: respond_def)

lemma app_missing_agent:
  assumes "headers scope ''user-agent'' = None"
  shows "app scope proto w = (Inl AttributeError, snd (get_surveys w))"
  using assms by (simp add: app_def get_action_total split_beta)

lemma app_other_client:
  assumes "headers scope ''user-agent'' = Some a" "\<not> startswith (casefold a) ''python''"
  shows "app scope proto w =
     (Inr \<lparr>status = 451, response_headers = [(''content-type'', ''application/json'')],
           body = orjson_dumps (envelope 451 ''Try using a Python HTTP client'')\<rparr>,
      snd (get_surveys w))"
  using assms by (simp add: app_def get_action_total split_beta respond_error)

lemma app_not_found:
  assumes "headers scope ''user-agent'' = Some a" "startswith (casefold a) ''python''"
    and "get_action (path scope) = Inr action" "action \<notin> dom (fst (get_surveys w))"
  shows "app scope proto w =
     (Inr \<lparr>status = 404, response_headers = [(''content-type'', ''application/json'')],
           body = orjson_dumps (envelope 404 (''Could not find any survey called '' @ action))\<rparr>,
      snd (get_surveys w))"
  using assms by (simp add: app_def split_beta respond_error)

lemma app_post:
  assumes "headers scope ''user-agent'' = Some a" "startswith (casefold a) ''python''"
    and "get_action (path scope) = Inr action" "action \<in> dom (fst (get_surveys w))"
    and "http_method scope = ''POST''" "decode proto = Inr answer"
  shows "app scope proto w =
     (Inr \<lparr>status = 200, response_headers = [(''content-type'', ''application/json'')],
           body = [dquote] @ ''Successfully submitted answer '' @ [backslash, dquote]
                  @ answer @ [backslash, dquote] @ ''.'' @ [dquote]\<rparr>,
      (snd (get_surveys w))
        \<lparr>response_table := response_table w @ [\<lparr>title = action, data = answer, agent = a\<rparr>],
         executed := executed (snd (get_surveys w))
                     @ [INSERT_response \<lparr>title = action, data = answer, agent = a\<rparr>]\<rparr>)"
  using assms
  by (simp add: app_def split_beta respond_ok dbexecute_def get_surveys_tables Let_def)

lemma app_post_undecodable:
  assumes "headers scope ''user-agent'' = Some a" "startswith (casefold a) ''python''"
    and "get_action (path scope) = Inr action" "action \<in> dom (fst (get_surveys w))"
    and "http_method scope = ''POST''" "decode proto = Inl e"
  shows "app scope proto w = (Inl e, snd (get_surveys w))"
  using assms by (simp add: app_def split_beta)

lemma app_get:
  assumes "headers scope ''user-agent'' = Some a" "startswith (casefold a) ''python''"
    and "get_action (path scope) = Inr action" "action \<in> dom (fst (get_surveys w))"
    and "http_method scope = ''GET''"
  shows "app scope proto w =
     (Inr \<lparr>status = 200, response_headers = [(''content-type'', ''application/json'')],
           body = json_group_array (map data (response_table w))\<rparr>,
      (snd (get_surveys w))\<lparr>executed := executed (snd (get_surveys w)) @ [SELECT_responses]\<rparr>)"
  using assms
  by (simp add: app_def split_beta respond_ok dbexecute_def get_surveys_tables Let_def)

lemma app_other_method:
  assumes "headers scope ''user-agent'' = Some a" "startswith (casefold a) ''python''"
    and "get_action (path scope) = Inr action" "action \<in> dom (fst (get_surveys w))"
    and "http_method scope \<noteq> ''POST''" "http_method scope \<noteq> ''GET''"
  shows "app scope proto w =
     (Inr \<lparr>status = 200, response_headers = [(''content-type'', ''application/json'')],
           body = [dquote, dquote]\<rparr>,
      snd (get_surveys w))"
  using assms by (simp add: app_def split_beta respond_ok)

text \<open>
  Every response the handler sends is one of three: the rejection, the not-found
  envelope, or a response with status 200.
\<close>

lemma app_cases:
  assumes "app scope proto w = (Inr r, w')"
  obtains
    (rejected) "r = \<lparr>status = 451, response_headers = [(''content-type'', ''application/json'')],
                   body = orjson_dumps (envelope 451 ''Try using a Python HTTP client'')\<rparr>"
  | (not_found) action where "get_action (path scope) = Inr action"
      "r = \<lparr>status = 404, response_headers = [(''content-type'', ''application/json'')],
            body = orjson_dumps (envelope 404 (''Could not find any survey called '' @ action))\<rparr>"
  | (ok) "status r = 200" "response_headers r = [(''content-type'', ''application/json'')]"
proof -
  obtain action where act: "get_action (path scope) = Inr action"
    by (simp add: get_action_total)
  show thesis
  proof (cases "headers scope ''user-agent''")
    case None
    then show thesis using assms by (simp add: app_missing_agent)
  next
    case (Some a)
    show thesis
    proof (cases "startswith (casefold a) ''python''")
      case False
      then show thesis using assms Some rejected by (simp add: app_other_client)
    next
      case True
      note allowed = Some True act
      show thesis
      proof (cases "action \<in> dom (fst (get_surveys w))")
        case False
        then show thesis using assms not_found [OF act] app_not_found [OF allowed] by simp
      next
        case True
        note known = allowed True
        consider (post) "http_method scope = ''POST''"
          | (get) "http_method scope = ''GET''"
          | (other) "http_method scope \<noteq> ''POST''" "http_method scope \<noteq> ''GET''"
          by blast
        then show thesis
        proof cases
          case post
          show thesis
          proof (cases "decode proto")
            case (Inl e)
            then show thesis using assms app_post_undecodable [OF known post] by simp
          next
            case (Inr answer)
            then show thesis using assms ok app_post [OF known post] by auto
          qed
        next
          case get
          then show thesis using assms ok app_get [OF known] by auto
        next
          case other
          then show thesis using assms ok app_other_method [OF known] by auto
        qed
      qed
    qed
  qed
qed

text \<open>
  A request that carries the header is always answered, unless it is a POST whose body
  is not UTF-8.
\<close>

lemma app_responds:
  assumes "headers scope ''user-agent'' = Some a"
    and "http_method scope \<noteq> ''POST'' \<or> decode proto = Inr answer"
  shows "\<exists>r w'. app scope proto w = (Inr r, w')"
proof -
  obtain action where act: "get_action (path scope) = Inr action"
    by (simp add: get_action_total)
  show ?thesis
  proof (cases "startswith (casefold a) ''python''")
    case False
    then show ?thesis using app_other_client [OF assms(1)] by simp
  next
    case True
    note allowed = assms(1) True act
    show ?thesis
    proof (cases "action \<in> dom (fst (get_surveys w))")
      case False
      then show ?thesis using app_not_found [OF allowed] by simp
    next
      case True
      note known = allowed True
      show ?thesis
      proof (cases "http_method scope = ''POST''")
        case True
        then show ?thesis using app_post [OF known True] assms(2) by simp
      next
        case False
        then show ?thesis
          using app_get [OF known] app_other_method [OF known False]
          by (cases "http_method scope = ''GET''") simp_all
      qed
    qed
  qed
qed

text \<open>
  The world after a submitted answer: one more row, the same catalog.
\<close>

lemma after_post:
  assumes "headers scope ''user-agent'' = Some a" "startswith (casefold a) ''python''"
    and "get_action (path scope) = Inr action" "action \<in> dom (fst (get_surveys w))"
    and "http_method scope = ''POST''" "decode proto = Inr answer"
  shows "response_table (after scope proto w)
           = response_table w @ [\<lparr>title = action, data = answer, agent = a\<rparr>]"
    and "fst (get_surveys (after scope proto w)) = fst (get_surveys w)"
proof -
  show "response_table (after scope proto w)
           = response_table w @ [\<lparr>title = action, data = answer, agent = a\<rparr>]"
    by (simp add: after_def app_post [OF assms])
  have "surveys_cache (after scope proto w) = Some (fst (get_surveys w))"
    by (simp add: after_def app_post [OF assms] get_surveys_fills_cache)
  then show "fst (get_surveys (after scope proto w)) = fst (get_surveys w)"
    by (simp add: get_surveys_cached)
qed

lemma repeated_post:
  assumes "headers scope ''user-agent'' = Some a" "startswith (casefold a) ''python''"
    and "get_action (path scope) = Inr S" "S \<in> dom (fst (get_surveys w))"
    and "http_method scope = ''POST''" "decode proto = Inr A"
  shows "response_table (repeated n scope proto w)
           = response_table w @ replicate n \<lparr>title = S, data = A, agent = a\<rparr>
         \<and> fst (get_surveys (repeated n scope proto w)) = fst (get_surveys w)"
proof (induction n)
  case 0
  show ?case by (simp add: repeated_def)
next
  case (Suc n)
  let ?w = "repeated n scope proto w"
  have known: "S \<in> dom (fst (get_surveys ?w))"
    using Suc assms(4) by simp
  have step: "repeated (Suc n) scope proto w = after scope proto ?w"
    by (simp add: repeated_def)
  show ?case
    using after_post [OF assms(1-3) known assms(5,6)] Suc
    by (simp add: step replicate_append_same)
qed

section \<open>The sample requests on the seeded database\<close>

lemma python_agent: "headers (python_request m p) ''user-agent'' = Some ''Python-urllib/3.11''"
  by (simp add: python_request_def)

lemma curl_agent: "headers (curl_request m p) ''user-agent'' = Some ''curl/8.5.0''"
  by (simp add: curl_request_def)

lemma python_allowed: "startswith (casefold ''Python-urllib/3.11'') ''python''"
  by code_simp

lemma curl_refused: "\<not> startswith (casefold ''curl/8.5.0'') ''python''"
  by code_simp

lemma seeded_catalog:
  "dom (fst (get_surveys seeded)) = {''favorite'', ''automation'', ''task''}"
  by (auto simp add: seeded_def get_surveys_def get_surveys_body_def dbexecute_def orjson_loads_def
      split: if_splits)

lemma seeded_known:
  "''favorite'' \<in> dom (fst (get_surveys seeded))"
  "''task'' \<in> dom (fst (get_surveys seeded))"
  "''unknown'' \<notin> dom (fst (get_surveys seeded))"
  by (simp_all add: seeded_catalog)

lemma answered_catalog: "fst (get_surveys answered) = fst (get_surveys seeded)"
  by (simp add: answered_def seeded_def get_surveys_def get_surveys_body_def dbexecute_def)

lemma get_action_samples:
  "get_action ''/favorite'' = Inr ''favorite''"
  "get_action ''/unknown'' = Inr ''unknown''"
  "get_action ''/'' = Inr []"
  by (simp_all add: get_action_total strip_def)

lemma sample_requests:
  "get_action (path (python_request m ''/favorite'')) = Inr ''favorite''"
  "get_action (path (python_request m ''/task'')) = Inr ''task''"
  "get_action (path (python_request m ''/unknown'')) = Inr ''unknown''"
  "http_method (python_request m p) = m"
  by (simp_all add: python_request_def get_action_total strip_def)

lemma decode_samples:
  "decode ''Garter snake'' = Inr ''Garter snake''"
  by code_simp

section \<open>Submitting an answer\<close>

text \<open>
  The quote inside the answer \<open>a"b\<close> ends the string: the reader has a complete string
  after \<open>a\<close> and text left over.
\<close>

lemma quote_ends_string:
  "parse_value (Suc n)
     ([dquote] @ ''Successfully submitted answer '' @ [backslash, dquote]
      @ [CHR ''a'', dquote, CHR ''b''] @ [backslash, dquote] @ ''.'' @ [dquote])
   = Some (JStr (''Successfully submitted answer '' @ [dquote, CHR ''a'']),
           [CHR ''b'', backslash, dquote, CHR ''.'', dquote])"
  by (simp add: skip_ws_def is_ws_def unescape_def)

text \<open>
  C1. A POST from an allowed client to a survey of the catalog is answered with status
  200; the body is meant to be one JSON string literal,
  \<open>"Successfully submitted answer \"<answer>\"."\<close>, with the quotes and backslashes of
  the answer escaped, so that it is valid JSON for every answer. The handler puts the
  answer between the two escaped quotes as it is. For the answer \<open>a"b\<close> the body sent is
  \<open>"Successfully submitted answer \"a"b\"."\<close>: \<open>json.loads\<close> refuses it, and it is not
  the literal of the sentence with that answer in it.
\<close>

theorem submit_answer_with_quote:
  "(let sent = [dquote] @ ''Successfully submitted answer '' @ [backslash, dquote]
               @ [CHR ''a'', dquote, CHR ''b''] @ [backslash, dquote] @ ''.'' @ [dquote]
    in fst (app (python_request ''POST'' ''/favorite'') [CHR ''a'', dquote, CHR ''b''] seeded)
         = Inr \<lparr>status = 200, response_headers = [(''content-type'', ''application/json'')],
                body = sent\<rparr>
       \<and> json_loads sent = None
       \<and> json_quote (''Successfully submitted answer '' @ [dquote]
               @ [CHR ''a'', dquote, CHR ''b''] @ [dquote] @ ''.'') \<noteq> sent)"
proof -
  have d: "decode [CHR ''a'', dquote, CHR ''b''] = Inr [CHR ''a'', dquote, CHR ''b'']"
    by code_simp
  have k: "''favorite'' \<in> dom (fst (get_surveys seeded))"
    by (simp add: seeded_catalog)
  have p: "get_action (path (python_request ''POST'' ''/favorite'')) = Inr ''favorite''"
    by (simp add: python_request_def get_action_samples)
  have m: "http_method (python_request ''POST'' ''/favorite'') = ''POST''"
    by (simp add: python_request_def)
  have "json_loads ([dquote] @ ''Successfully submitted answer '' @ [backslash, dquote]
               @ [CHR ''a'', dquote, CHR ''b''] @ [backslash, dquote] @ ''.'' @ [dquote]) = None"
    by code_simp
  moreover have "json_quote (''Successfully submitted answer '' @ [dquote]
               @ [CHR ''a'', dquote, CHR ''b''] @ [dquote] @ ''.'')
       \<noteq> [dquote] @ ''Successfully submitted answer '' @ [backslash, dquote]
               @ [CHR ''a'', dquote, CHR ''b''] @ [backslash, dquote] @ ''.'' @ [dquote]"
    by code_simp
  ultimately show ?thesis
    using app_post [OF python_agent python_allowed p k m d]
    by (simp add: Let_def)
qed

text \<open>
  An answer without quote, backslash or control character needs no escape, and there
  the body is the literal the claim describes.
\<close>

lemma plain_text: "\<forall>c \<in> set s. escape_char c = [c] \<Longrightarrow> concat (map escape_char s) = s"
  by (induction s) simp_all

lemma submit_plain_answer:
  assumes "headers scope ''user-agent'' = Some a" "startswith (casefold a) ''python''"
    and "get_action (path scope) = Inr action" "action \<in> dom (fst (get_surveys w))"
    and "http_method scope = ''POST''" "decode proto = Inr answer"
    and "\<forall>c \<in> set answer. escape_char c = [c]"
  shows "\<exists>r w'. app scope proto w = (Inr r, w') \<and> status r = 200
     \<and> body r = json_quote (''Successfully submitted answer '' @ [dquote] @ answer @ [dquote] @ ''.'')
     \<and> json_loads (body r) =
         Some (JStr (''Successfully submitted answer '' @ [dquote] @ answer @ [dquote] @ ''.''))"
proof -
  let ?s = "''Successfully submitted answer '' @ [dquote] @ answer @ [dquote] @ ''.''"
  have q: "json_quote ?s = [dquote] @ ''Successfully submitted answer '' @ [backslash, dquote]
                  @ answer @ [backslash, dquote] @ ''.'' @ [dquote]"
    using plain_text [OF assms(7)] by (simp add: json_quote_def escape_char_def)
  have "parse_value (Suc (2 * length (json_quote ?s) + 1)) (json_quote ?s @ []) = Some (JStr ?s, [])"
    by (rule parse_value_quote)
  then have "json_loads (json_quote ?s) = Some (JStr ?s)"
    by (simp add: json_loads_def skip_ws_def del: parse_value.simps)
  then show ?thesis
    using app_post [OF assms(1-6)] q by simp
qed

text \<open>
  C8. Submitting is not idempotent: the same POST from an allowed client to a survey
  \<open>S\<close> of the catalog, with a body that decodes to \<open>A\<close>, sent \<open>n\<close> times in a row, adds
  \<open>n\<close> rows \<open>{title: S, data: A, agent: client header}\<close> to the response table, and
  the next such POST is answered with status 200 again.
\<close>

theorem submit_not_idempotent:
  assumes "headers scope ''user-agent'' = Some a" "startswith (casefold a) ''python''"
    and "get_action (path scope) = Inr S" "S \<in> dom (fst (get_surveys w))"
    and "http_method scope = ''POST''" "decode proto = Inr A"
  shows "response_table (repeated n scope proto w)
           = response_table w @ replicate n \<lparr>title = S, data = A, agent = a\<rparr>
         \<and> length (response_table (repeated n scope proto w)) = length (response_table w) + n
         \<and> (\<exists>r. fst (app scope proto (repeated n scope proto w)) = Inr r \<and> status r = 200)"
proof -
  let ?w = "repeated n scope proto w"
  have known: "S \<in> dom (fst (get_surveys ?w))"
    using repeated_post [OF assms, of n] assms(4) by simp
  show ?thesis
    using repeated_post [OF assms, of n] app_post [OF assms(1-3) known assms(5,6)]
    by simp
qed

theorem submit_not_idempotent_witness:
  "response_table (repeated 3 (python_request ''POST'' ''/favorite'') ''Garter snake'' seeded)
     = [\<lparr>title = ''favorite'', data = ''Garter snake'', agent = ''Python-urllib/3.11''\<rparr>,
        \<lparr>title = ''favorite'', data = ''Garter snake'', agent = ''Python-urllib/3.11''\<rparr>,
        \<lparr>title = ''favorite'', data = ''Garter snake'', agent = ''Python-urllib/3.11''\<rparr>]
   \<and> length (response_table (repeated 3 (python_request ''POST'' ''/favorite'') ''Garter snake'' seeded))
       = length (response_table seeded) + 3
   \<and> (\<exists>r. fst (app (python_request ''POST'' ''/favorite'') ''Garter snake''
                 (repeated 3 (python_request ''POST'' ''/favorite'') ''Garter snake'' seeded)) = Inr r
          \<and> status r = 200)"
  using submit_not_idempotent
      [OF python_agent python_allowed sample_requests(1) seeded_known(1) sample_requests(4)
          decode_samples, of 3]
  by (simp add: seeded_def numeral_3_eq_3)

section \<open>Retrieving the answers\<close>

text \<open>
  C4. A GET from an allowed client for a survey of the catalog is answered with status
  200 and the JSON array of the \<open>data\<close> of every row of the response table, whatever
  survey a row belongs to; the requested survey plays no part. With no rows the body is
  \<open>[]\<close>. The table is left as it was.
\<close>

theorem retrieve_all_responses:
  assumes "headers scope ''user-agent'' = Some a" "startswith (casefold a) ''python''"
    and "get_action (path scope) = Inr action" "action \<in> dom (fst (get_surveys w))"
    and "http_method scope = ''GET''"
  shows "\<exists>r w'. app scope proto w = (Inr r, w') \<and> status r = 200
           \<and> body r = json_group_array (map data (response_table w))
           \<and> json_loads (body r) = Some (JArr (map (\<lambda>row. JStr (data row)) (response_table w)))
           \<and> (response_table w = [] \<longrightarrow> body r = ''[]'')
           \<and> response_table w' = response_table w"
  using app_get [OF assms, of proto] json_loads_array [of "map data (response_table w)"]
  by (auto simp add: get_surveys_tables json_group_array_def comp_def)

text \<open>
  A GET for \<open>favorite\<close> returns the answer given to \<open>task\<close> as well.
\<close>

theorem retrieve_all_responses_witness:
  "\<exists>r w'. app (python_request ''GET'' ''/favorite'') [] answered = (Inr r, w') \<and> status r = 200
     \<and> body r = ''['' @ [dquote] @ ''backups'' @ [dquote] @ '','' @ [dquote] @ ''Garter snake'' @ [dquote] @ '']''
     \<and> json_loads (body r) = Some (JArr [JStr ''backups'', JStr ''Garter snake''])
     \<and> response_table w' = response_table answered"
proof -
  have p: "get_action (path (python_request ''GET'' ''/favorite'')) = Inr ''favorite''"
    by (simp add: python_request_def get_action_samples)
  have k: "''favorite'' \<in> dom (fst (get_surveys answered))"
    by (simp add: answered_catalog seeded_catalog)
  have m: "http_method (python_request ''GET'' ''/favorite'') = ''GET''"
    by (simp add: python_request_def)
  have rows: "map data (response_table answered) = [''backups'', ''Garter snake'']"
    by (simp add: answered_def)
  have t: "json_group_array [''backups'', ''Garter snake'']
       = ''['' @ [dquote] @ ''backups'' @ [dquote] @ '','' @ [dquote] @ ''Garter snake'' @ [dquote] @ '']''"
    by code_simp
  show ?thesis
    using retrieve_all_responses [OF python_agent python_allowed p k m, of "[]"]
    by (simp add: rows t answered_def)
qed

text \<open>
  C3. Round trip: after a POST of answer text \<open>A\<close> to a survey of the catalog, a GET
  for any survey of the catalog returns a JSON array that has \<open>A\<close> among its elements
  (both from allowed clients).
\<close>

theorem submit_then_retrieve:
  assumes "headers s1 ''user-agent'' = Some a1" "startswith (casefold a1) ''python''"
    and "get_action (path s1) = Inr S" "S \<in> dom (fst (get_surveys w))"
    and "http_method s1 = ''POST''" "decode proto = Inr A"
    and "headers s2 ''user-agent'' = Some a2" "startswith (casefold a2) ''python''"
    and "get_action (path s2) = Inr S'" "S' \<in> dom (fst (get_surveys w))"
    and "http_method s2 = ''GET''"
  shows "\<exists>r w2 xs. app s2 proto2 (after s1 proto w) = (Inr r, w2) \<and> status r = 200
           \<and> json_loads (body r) = Some (JArr xs) \<and> JStr A \<in> set xs"
proof -
  let ?w1 = "after s1 proto w"
  have known: "S' \<in> dom (fst (get_surveys ?w1))"
    using assms(10) after_post(2) [OF assms(1-6)] by simp
  have rows: "response_table ?w1 = response_table w @ [\<lparr>title = S, data = A, agent = a1\<rparr>]"
    by (rule after_post(1) [OF assms(1-6)])
  have "JStr A \<in> set (map JStr (map data (response_table ?w1)))"
    by (simp add: rows)
  then show ?thesis
    using app_get [OF assms(7-9) known assms(11), of proto2] json_loads_array
    by fastforce
qed

theorem submit_then_retrieve_witness:
  "\<exists>r w2 xs.
     app (python_request ''GET'' ''/task'') []
         (after (python_request ''POST'' ''/favorite'') ''Garter snake'' seeded) = (Inr r, w2)
     \<and> status r = 200 \<and> json_loads (body r) = Some (JArr xs) \<and> JStr ''Garter snake'' \<in> set xs"
  by (rule submit_then_retrieve
      [OF python_agent python_allowed sample_requests(1) seeded_known(1) sample_requests(4)
          decode_samples
          python_agent python_allowed sample_requests(2) seeded_known(2) sample_requests(4)])

section \<open>Requests that are turned away\<close>

text \<open>
  C2. A request whose \<open>user-agent\<close> header is missing, or does not start with
  \<open>python\<close>, is claimed to get status 451 and the fixed message. A header that is
  present and does not match gets exactly that (\<open>app_other_client\<close>, for every path and
  verb). A request without the header gets no response: \<open>headers.get\<close> returns \<open>None\<close>
  and \<open>None.casefold()\<close> raises.
\<close>

theorem missing_user_agent_raises:
  "fst (app (bare_request ''GET'' ''/favorite'') [] seeded) = Inl AttributeError"
  by (simp add: app_missing_agent bare_request_def)

text \<open>
  C5. A request from an allowed client whose action is not a key of the catalog is
  answered with status 404, and the message of the envelope is
  \<open>Could not find any survey called\<close> followed by the action as it stands. This holds
  for every verb, GET and POST among them, and for the empty action.
\<close>

theorem unknown_survey_not_found:
  assumes "headers scope ''user-agent'' = Some a" "startswith (casefold a) ''python''"
    and "get_action (path scope) = Inr action" "action \<notin> dom (fst (get_surveys w))"
  shows "\<exists>r w'. app scope proto w = (Inr r, w') \<and> status r = 404
           \<and> json_loads (body r) =
               Some (JObj [(''error'', JObj [(''code'', JInt 404),
                  (''message'', JStr (''Could not find any survey called '' @ action))])])"
  using app_not_found [OF assms, of proto]
    json_loads_envelope [of 404 "''Could not find any survey called '' @ action"]
  by (simp add: envelope_def)

text \<open>
  The path \<open>/\<close> gives the empty action, which is no survey.
\<close>

theorem unknown_survey_not_found_witness:
  "get_action ''/'' = Inr []
   \<and> [] \<notin> dom (fst (get_surveys seeded))
   \<and> (\<exists>r w'. app (python_request ''GET'' ''/'') [] seeded = (Inr r, w') \<and> status r = 404
         \<and> json_loads (body r) =
             Some (JObj [(''error'', JObj [(''code'', JInt 404),
                (''message'', JStr ''Could not find any survey called '')])]))"
proof -
  have p: "get_action (path (python_request ''GET'' ''/'')) = Inr []"
    by (simp add: python_request_def get_action_samples)
  have k: "[] \<notin> dom (fst (get_surveys seeded))"
    by (simp add: seeded_catalog)
  show ?thesis
    using unknown_survey_not_found [OF python_agent python_allowed p k, of "[]"] k
    by (simp add: get_action_samples)
qed

text \<open>
  C6. A response with a status other than 200 has a body that reads as the object
  \<open>{"error": {"code": status, "message": text}}\<close> with these keys and no others, and
  the body is that object written with one member per line, two spaces of indentation
  per level, and a newline at the end.
\<close>

theorem error_envelope:
  assumes "app scope proto w = (Inr r, w')" "status r \<noteq> 200"
  shows "\<exists>message.
           json_loads (body r) =
             Some (JObj [(''error'', JObj [(''code'', JInt (status r)), (''message'', JStr message)])])
           \<and> body r =
               ''{'' @ [newline]
               @ ''  '' @ [dquote] @ ''error'' @ [dquote] @ '': {'' @ [newline]
               @ ''    '' @ [dquote] @ ''code'' @ [dquote] @ '': '' @ show_int (status r) @ '','' @ [newline]
               @ ''    '' @ [dquote] @ ''message'' @ [dquote] @ '': '' @ json_quote message @ [newline]
               @ ''  }'' @ [newline]
               @ ''}'' @ [newline]"
proof -
  have shape: "orjson_dumps (envelope code message) =
               ''{'' @ [newline]
               @ ''  '' @ [dquote] @ ''error'' @ [dquote] @ '': {'' @ [newline]
               @ ''    '' @ [dquote] @ ''code'' @ [dquote] @ '': '' @ show_int code @ '','' @ [newline]
               @ ''    '' @ [dquote] @ ''message'' @ [dquote] @ '': '' @ json_quote message @ [newline]
               @ ''  }'' @ [newline]
               @ ''}'' @ [newline]" for code message
    by (simp add: orjson_dumps_envelope) (simp add: json_quote_def escape_char_def)
  from assms(1) show ?thesis
  proof (cases rule: app_cases)
    case rejected
    show ?thesis
      using json_loads_envelope [of 451 "''Try using a Python HTTP client''"]
        shape [of 451 "''Try using a Python HTTP client''"]
      unfolding rejected envelope_def by (intro exI [of _ "''Try using a Python HTTP client''"]) simp
  next
    case (not_found action)
    show ?thesis
      using json_loads_envelope [of 404 "''Could not find any survey called '' @ action"]
        shape [of 404 "''Could not find any survey called '' @ action"]
      unfolding not_found envelope_def
      by (intro exI [of _ "''Could not find any survey called '' @ action"]) simp
  next
    case ok
    then show ?thesis using assms(2) by simp
  qed
qed

theorem error_envelope_witness:
  "\<exists>r w' message.
     app (python_request ''GET'' ''/unknown'') [] seeded = (Inr r, w') \<and> status r = 404
     \<and> json_loads (body r) =
         Some (JObj [(''error'', JObj [(''code'', JInt 404), (''message'', JStr message)])])
     \<and> body r =
         ''{'' @ [newline]
         @ ''  '' @ [dquote] @ ''error'' @ [dquote] @ '': {'' @ [newline]
         @ ''    '' @ [dquote] @ ''code'' @ [dquote] @ '': 404,'' @ [newline]
         @ ''    '' @ [dquote] @ ''message'' @ [dquote] @ '': '' @ json_quote message @ [newline]
         @ ''  }'' @ [newline]
         @ ''}'' @ [newline]"
proof -
  let ?r = "\<lparr>status = 404, response_headers = [(''content-type'', ''application/json'')],
           body = orjson_dumps (envelope 404 (''Could not find any survey called '' @ ''unknown''))\<rparr>"
  have a: "app (python_request ''GET'' ''/unknown'') [] seeded = (Inr ?r, snd (get_surveys seeded))"
    by (rule app_not_found [OF python_agent python_allowed sample_requests(3) seeded_known(3)])
  have "status ?r \<noteq> 200" by simp
  from error_envelope [OF a this] a show ?thesis
    by (simp add: show_int_codes)
qed

section \<open>Other verbs, and every response\<close>

text \<open>
  C9. A request from an allowed client for a survey of the catalog with a verb other
  than POST and GET is answered with status 200 and the body \<open>""\<close>, the empty JSON
  string. Nothing is written: the world after the request is the world after the
  catalog read, with both tables as they were and at most the catalog query executed.
\<close>

theorem other_verb_placeholder:
  assumes "headers scope ''user-agent'' = Some a" "startswith (casefold a) ''python''"
    and "get_action (path scope) = Inr action" "action \<in> dom (fst (get_surveys w))"
    and "http_method scope \<noteq> ''POST''" "http_method scope \<noteq> ''GET''"
  shows "app scope proto w =
            (Inr \<lparr>status = 200, response_headers = [(''content-type'', ''application/json'')],
                  body = [dquote, dquote]\<rparr>,
             snd (get_surveys w))
         \<and> response_table (snd (get_surveys w)) = response_table w
         \<and> survey_table (snd (get_surveys w)) = survey_table w
         \<and> executed (snd (get_surveys w))
             = (if surveys_cache w = None then executed w @ [SELECT_surveys] else executed w)
         \<and> json_loads [dquote, dquote] = Some (JStr [])"
proof -
  have "json_loads [dquote, dquote] = Some (JStr [])"
    by code_simp
  then show ?thesis
    using app_other_method [OF assms, of proto]
    by (simp add: get_surveys_tables get_surveys_executed)
qed

theorem other_verb_placeholder_witness:
  "app (python_request ''PUT'' ''/favorite'') ''Garter snake'' seeded =
      (Inr \<lparr>status = 200, response_headers = [(''content-type'', ''application/json'')],
            body = [dquote, dquote]\<rparr>,
       snd (get_surveys seeded))
   \<and> response_table (snd (get_surveys seeded)) = []
   \<and> executed (snd (get_surveys seeded)) = [SELECT_surveys]"
proof -
  have m: "http_method (python_request ''PUT'' ''/favorite'') \<noteq> ''POST''"
    "http_method (python_request ''PUT'' ''/favorite'') \<noteq> ''GET''"
    by (simp_all add: python_request_def)
  show ?thesis
    using other_verb_placeholder
      [OF python_agent python_allowed sample_requests(1) seeded_known(1) m, of "''Garter snake''"]
    by (simp add: seeded_def)
qed

text \<open>
  C10. Whenever the handler sends a response, its status is 200, 404 or 451 and its
  only header is \<open>content-type: application/json\<close>.
\<close>

theorem app_status_and_content_type:
  assumes "app scope proto w = (Inr r, w')"
  shows "(status r = 200 \<or> status r = 404 \<or> status r = 451)
         \<and> response_headers r = [(''content-type'', ''application/json'')]"
  using assms by (cases rule: app_cases) auto

theorem app_status_and_content_type_witness:
  "app (curl_request ''GET'' ''/favorite'') [] seeded =
     (Inr \<lparr>status = 451, response_headers = [(''content-type'', ''application/json'')],
           body = orjson_dumps (envelope 451 ''Try using a Python HTTP client'')\<rparr>,
      snd (get_surveys seeded))
   \<and> response_headers
        \<lparr>status = 451, response_headers = [(''content-type'', ''application/json'')],
         body = orjson_dumps (envelope 451 ''Try using a Python HTTP client'')\<rparr>
       = [(''content-type'', ''application/json'')]"
  using app_status_and_content_type [OF app_other_client [OF curl_agent curl_refused, of "''GET''" "''/favorite''" "[]" seeded]]
    app_other_client [OF curl_agent curl_refused, of "''GET''" "''/favorite''" "[]" seeded]
  by simp

end
